theory Spec2Isabelle
  imports Main
begin

section \<open>Data model\<close>

text \<open>
  The view module \<^verbatim>\<open>care/facility/api/viewsets/legacy/patient_consultation.py\<close> reads rows of
  the tables PatientConsultation, PatientConsent, ConsultationBed and AssetBed through the ORM.
  A row is a record; a foreign key that the view follows (\<^verbatim>\<open>patient__facility__state\<close>,
  \<^verbatim>\<open>consultation_bed.bed.external_id\<close>) is the referenced row, nested; a foreign key that the
  view only compares (\<^verbatim>\<open>facility=...\<close>, \<^verbatim>\<open>current_bed=...\<close>) is the primary key of the
  referenced row. A many-to-many relation (\<^verbatim>\<open>assets\<close> of a consultation bed, \<^verbatim>\<open>bed_set\<close> of an
  asset) is the list of the primary keys it relates to. A nullable column is an \<open>option\<close>.
  Primary keys are \<open>nat\<close>, external identifiers (UUIDs) are strings, \<^verbatim>\<open>user_type\<close> is a Python integer.
\<close>

record facility =
  facility_pk :: nat
  state :: "nat option"
  district :: "nat option"

record patient =
  patient_external_id :: string
  is_active :: bool
  patient_facility :: "facility option"
  assigned_to :: "nat option"

record asset =
  asset_pk :: nat
  current_location :: "nat option"
  bed_set :: "nat list"

record user =
  user_pk :: nat
  is_superuser :: bool
  user_type :: int
  user_state :: "nat option"
  user_district :: "nat option"
  home_facility :: "nat option"
  user_asset :: "asset option"

type_synonym discharge_data = "(string \<times> string) list"

record consultation =
  consultation_pk :: nat
  external_id :: string
  patient :: patient
  facility :: "nat option"
  current_bed :: "nat option"
  discharge_fields :: "discharge_data option"

record consent =
  consent_pk :: nat
  consent_external_id :: string
  consultation :: nat
  archived :: bool

record bed =
  bed_pk :: nat
  bed_external_id :: string

record consultation_bed =
  consultation_bed_pk :: nat
  bed :: bed
  end_date :: "nat option"
  assets :: "nat list"

record asset_bed =
  asset_bed_pk :: nat
  asset_bed_asset :: asset
  asset_bed_bed :: nat
  meta__preset_name :: "string option"

text \<open>The tables, each named after its model class; \<open>PatientConsultation d\<close> is
  \<^verbatim>\<open>PatientConsultation.objects.all()\<close>.\<close>

record db =
  PatientConsultation :: "consultation list"
  PatientConsent :: "consent list"
  ConsultationBed :: "consultation_bed list"
  AssetBed :: "asset_bed list"

text \<open>
  What a request can raise: \<^verbatim>\<open>Http404\<close> from \<^verbatim>\<open>get_object_or_404\<close>, \<^verbatim>\<open>NotFound\<close> with its
  detail, \<^verbatim>\<open>MultipleObjectsReturned\<close> from \<^verbatim>\<open>QuerySet.get\<close>, the \<^verbatim>\<open>ValidationError\<close> of
  \<^verbatim>\<open>is_valid(raise_exception=True)\<close>, and \<open>DjangoValidationError\<close>, the
  \<^verbatim>\<open>django.core.exceptions.ValidationError\<close> that the ORM raises when a value given for a UUID
  column is not a UUID. The first two are the spec's NotFound; the last is not an API error
  and no handler of the view turns it into one.
\<close>

datatype error =
  Http404 | NotFound string | MultipleObjectsReturned | ValidationError | DjangoValidationError

text \<open>
  A string looked up in a UUID column, as \<^verbatim>\<open>UUIDField.to_python\<close> of the ORM takes it: the
  text of a UUID, or a string that is not one.
\<close>

datatype lookup_value = UUID string | NotUUID string

record 'a response =
  status :: nat
  data :: "'a option"

record patient_consultation_id =
  patient_id :: string
  consultation_id :: string
  bed_id :: string
  asset_beds :: "asset_bed list"

record query_params =
  patient_param :: "string option"
  facility_param :: "nat option"

section \<open>The consultation queryset\<close>

text \<open>
  The class attribute \<^verbatim>\<open>queryset = PatientConsultation.objects.all().select_related("facility")
  .order_by("-id")\<close>: all rows, highest primary key first.
\<close>

definition queryset :: "db \<Rightarrow> consultation list" where
  "queryset d = rev (sort_key consultation_pk (PatientConsultation d))"

text \<open>
  The ORM lookups of \<^verbatim>\<open>get_queryset\<close>. A lookup across a nullable foreign key yields NULL
  when the key is NULL; \<^verbatim>\<open>filter(path=v)\<close> keeps the rows whose value is \<open>v\<close>, and
  \<^verbatim>\<open>filter(path=None)\<close> is the ORM's \<^verbatim>\<open>IS NULL\<close> over an outer join, so both are equality
  of \<open>option\<close> values. \<^verbatim>\<open>path__in=ids\<close> never holds of NULL.
\<close>

definition patient__facility__state :: "consultation \<Rightarrow> nat option" where
  "patient__facility__state c =
     (case patient_facility (patient c) of None \<Rightarrow> None | Some f \<Rightarrow> state f)"

definition patient__facility__district :: "consultation \<Rightarrow> nat option" where
  "patient__facility__district c =
     (case patient_facility (patient c) of None \<Rightarrow> None | Some f \<Rightarrow> district f)"

definition patient__facility__id__in :: "nat list \<Rightarrow> consultation \<Rightarrow> bool" where
  "patient__facility__id__in ids c =
     (case patient_facility (patient c) of None \<Rightarrow> False | Some f \<Rightarrow> facility_pk f \<in> set ids)"

text \<open>
  The \<^verbatim>\<open>Q\<close> object of the last branch (lines 97 to 101 of the view). The line that would add
  \<^verbatim>\<open>Q(patient__assigned_to=self.request.user)\<close> is commented out in the source and is not part
  of the filter.
\<close>

definition applied_filters :: "nat list \<Rightarrow> user \<Rightarrow> consultation \<Rightarrow> bool" where
  "applied_filters allowed_facilities u c =
     ((is_active (patient c) = True \<and> patient__facility__id__in allowed_facilities c)
      \<or> facility c = home_facility u)"

text \<open>
  \<^verbatim>\<open>PatientConsultationViewSet.get_queryset\<close>. \<^verbatim>\<open>User.TYPE_VALUE_MAP\<close> (a constant table of
  \<^verbatim>\<open>care.users.models\<close>) and \<^verbatim>\<open>get_accessible_facilities\<close> (of \<^verbatim>\<open>care.utils.cache\<close>) are
  defined outside the files at hand and are parameters. \<^verbatim>\<open>prefetch_related\<close> does not change
  which rows are selected.
\<close>

definition get_queryset ::
  "(string \<Rightarrow> int) \<Rightarrow> (user \<Rightarrow> nat list) \<Rightarrow> user \<Rightarrow> db \<Rightarrow> consultation list" where
  "get_queryset TYPE_VALUE_MAP get_accessible_facilities u d =
     (let qs = queryset d in
      if is_superuser u then qs
      else if user_type u \<ge> TYPE_VALUE_MAP ''StateLabAdmin'' then
        filter (\<lambda>c. patient__facility__state c = user_state u) qs
      else if user_type u \<ge> TYPE_VALUE_MAP ''DistrictLabAdmin'' then
        filter (\<lambda>c. patient__facility__district c = user_district u) qs
      else
        (let allowed_facilities = get_accessible_facilities u in
         filter (applied_filters allowed_facilities u) qs))"

text \<open>
  The access predicate as section 4.1 of the specification words it
  (\<^verbatim>\<open>build_consultation_predicate(user)\<close>), with \<^verbatim>\<open>role_tier\<close> read as \<^verbatim>\<open>user_type\<close> and the
  accessible-facility set as the result of the resolver. It is compared with \<open>get_queryset\<close>
  below.
\<close>

definition build_consultation_predicate ::
  "(string \<Rightarrow> int) \<Rightarrow> (user \<Rightarrow> nat list) \<Rightarrow> user \<Rightarrow> consultation \<Rightarrow> bool" where
  "build_consultation_predicate tiers AccessibleFacilitySet u c =
     (if is_superuser u then True
      else if user_type u \<ge> tiers ''StateLabAdmin'' then
        patient__facility__state c = user_state u
      else if user_type u \<ge> tiers ''DistrictLabAdmin'' then
        patient__facility__district c = user_district u
      else
        (let A = AccessibleFacilitySet u in
         (is_active (patient c) \<and> patient__facility__id__in A c)
         \<or> facility c = home_facility u))"

section \<open>Retrieving one object\<close>

text \<open>
  \<^verbatim>\<open>get_object_or_404(queryset)\<close> calls \<^verbatim>\<open>queryset.get()\<close>: no row is \<^verbatim>\<open>Http404\<close>, one row is
  the object, more rows raise \<^verbatim>\<open>MultipleObjectsReturned\<close>.
\<close>

fun get_object_or_404 :: "'a list \<Rightarrow> error + 'a" where
  "get_object_or_404 [] = Inl Http404"
| "get_object_or_404 [x] = Inr x"
| "get_object_or_404 (x # y # zs) = Inl MultipleObjectsReturned"

text \<open>
  \<^verbatim>\<open>PatientConsultationFilter\<close>: a query parameter that is given restricts the rows; one that
  is absent, or given with an empty value, does not.
\<close>

definition PatientConsultationFilter :: "query_params \<Rightarrow> consultation list \<Rightarrow> consultation list" where
  "PatientConsultationFilter q qs =
     filter (\<lambda>c. (case patient_param q of None \<Rightarrow> True
                    | Some p \<Rightarrow> p = [] \<or> patient_external_id (patient c) = p)
               \<and> (case facility_param q of None \<Rightarrow> True
                    | Some f \<Rightarrow> facility c = Some f)) qs"

text \<open>
  \<^verbatim>\<open>self.get_object()\<close> of the generic view: the filter backend applied to \<^verbatim>\<open>get_queryset()\<close>,
  then the row whose \<^verbatim>\<open>lookup_field\<close> (\<^verbatim>\<open>external_id\<close>) is the one in the path. The
  permission classes are defined outside the files at hand; the requests considered are those
  they admit.
\<close>

definition get_object ::
  "(string \<Rightarrow> int) \<Rightarrow> (user \<Rightarrow> nat list) \<Rightarrow> user \<Rightarrow> db \<Rightarrow> query_params \<Rightarrow> string
     \<Rightarrow> error + consultation" where
  "get_object TYPE_VALUE_MAP get_accessible_facilities u d q lookup =
     get_object_or_404
       (filter (\<lambda>c. external_id c = lookup)
          (PatientConsultationFilter q (get_queryset TYPE_VALUE_MAP get_accessible_facilities u d)))"

section \<open>Discharge\<close>

text \<open>
  Modelled from the spec: \<^verbatim>\<open>PatientConsultationDischargeSerializer\<close> (module
  \<^verbatim>\<open>care.facility.api.serializers.patient_consultation\<close>) is not among the files at hand.
  Section 4.2: validation of the payload is an external collaborator (the parameter
  \<open>is_valid\<close> of \<open>discharge_patient\<close>); saving populates the discharge fields from the validated
  payload and applies the keyword argument \<^verbatim>\<open>current_bed\<close> given to \<^verbatim>\<open>save\<close>, writing the row
  with the instance's primary key.
\<close>

definition serializer_save ::
  "consultation \<Rightarrow> discharge_data \<Rightarrow> nat option \<Rightarrow> db \<Rightarrow> db" where
  "serializer_save instance validated_data current_bed_kw d =
     d\<lparr>PatientConsultation :=
         map (\<lambda>r. if consultation_pk r = consultation_pk instance
                  then instance\<lparr>discharge_fields := Some validated_data,
                                current_bed := current_bed_kw\<rparr>
                  else r)
             (PatientConsultation d)\<rparr>"

definition HTTP_200_OK :: nat where
  "HTTP_200_OK = 200"

text \<open>
  \<^verbatim>\<open>PatientConsultationViewSet.discharge_patient\<close>: the object, the validation that raises,
  \<^verbatim>\<open>serializer.save(current_bed=None)\<close>, and \<^verbatim>\<open>Response(status=status.HTTP_200_OK)\<close>, which has
  no data. The result is the response and the database after the request.
\<close>

definition discharge_patient ::
  "(consultation \<Rightarrow> discharge_data \<Rightarrow> bool) \<Rightarrow> (string \<Rightarrow> int) \<Rightarrow> (user \<Rightarrow> nat list)
     \<Rightarrow> user \<Rightarrow> db \<Rightarrow> query_params \<Rightarrow> string \<Rightarrow> discharge_data
     \<Rightarrow> error + (unit response \<times> db)" where
  "discharge_patient is_valid TYPE_VALUE_MAP get_accessible_facilities u d q lookup request_data =
     (case get_object TYPE_VALUE_MAP get_accessible_facilities u d q lookup of
        Inl e \<Rightarrow> Inl e
      | Inr instance \<Rightarrow>
          if \<not> is_valid instance request_data then Inl ValidationError
          else Inr (\<lparr>status = HTTP_200_OK, data = None\<rparr>,
                    serializer_save instance request_data None d))"

section \<open>Consents\<close>

text \<open>
  Modelled from the spec: \<^verbatim>\<open>get_consultation_queryset\<close> (module
  \<^verbatim>\<open>care.utils.queryset.consultation\<close>) is not among the files at hand. Section 4.1: the
  consultation has to satisfy \<^verbatim>\<open>build_consultation_predicate(user)\<close>.
\<close>

definition get_consultation_queryset ::
  "(string \<Rightarrow> int) \<Rightarrow> (user \<Rightarrow> nat list) \<Rightarrow> user \<Rightarrow> db \<Rightarrow> consultation list" where
  "get_consultation_queryset tiers AccessibleFacilitySet u d =
     filter (build_consultation_predicate tiers AccessibleFacilitySet u) (PatientConsultation d)"

text \<open>
  \<^verbatim>\<open>PatientConsentViewSet.get_consultation_obj\<close>, with the path's
  \<^verbatim>\<open>consultation_external_id\<close>. The view calls \<^verbatim>\<open>get_object_or_404\<close> of
  \<^verbatim>\<open>django.shortcuts\<close> (line 4) on \<^verbatim>\<open>queryset.filter(external_id=...)\<close>: the filter is built
  first and raises for a value that is not a UUID, and \<^verbatim>\<open>get_object_or_404\<close> turns only
  the absence of a row into \<^verbatim>\<open>Http404\<close>. (The \<^verbatim>\<open>get_object\<close> of the generic view above
  answers \<^verbatim>\<open>Http404\<close> for such a value as well.)
\<close>

definition get_consultation_obj ::
  "(string \<Rightarrow> int) \<Rightarrow> (user \<Rightarrow> nat list) \<Rightarrow> user \<Rightarrow> db \<Rightarrow> lookup_value
     \<Rightarrow> error + consultation" where
  "get_consultation_obj tiers AccessibleFacilitySet u d consultation_external_id =
     (case consultation_external_id of
        NotUUID s \<Rightarrow> Inl DjangoValidationError
      | UUID v \<Rightarrow>
          get_object_or_404
            (filter (\<lambda>c. external_id c = v)
               (get_consultation_queryset tiers AccessibleFacilitySet u d)))"

text \<open>\<^verbatim>\<open>PatientConsentViewSet.get_queryset\<close>: the consents whose consultation is the object
  found, or the error of finding it.\<close>

definition consent_get_queryset ::
  "(string \<Rightarrow> int) \<Rightarrow> (user \<Rightarrow> nat list) \<Rightarrow> user \<Rightarrow> db \<Rightarrow> lookup_value
     \<Rightarrow> error + consent list" where
  "consent_get_queryset tiers AccessibleFacilitySet u d consultation_external_id =
     (case get_consultation_obj tiers AccessibleFacilitySet u d consultation_external_id of
        Inl e \<Rightarrow> Inl e
      | Inr obj \<Rightarrow> Inr (filter (\<lambda>k. consultation k = consultation_pk obj) (PatientConsent d)))"

section \<open>The patient of an asset\<close>

text \<open>\<^verbatim>\<open>QuerySet.first()\<close>.\<close>

fun first :: "'a list \<Rightarrow> 'a option" where
  "first [] = None"
| "first (x # xs) = Some x"

text \<open>
  The lookup \<^verbatim>\<open>icontains\<close>: the pattern occurs in the value, letter case ignored. Characters
  are bytes here and the case of the ASCII letters is the one ignored.
\<close>

definition upper_char :: "char \<Rightarrow> char" where
  "upper_char ch =
     (let n = (of_char ch :: nat) in if 97 \<le> n \<and> n \<le> 122 then char_of (n - 32) else ch)"

fun startswith :: "string \<Rightarrow> string \<Rightarrow> bool" where
  "startswith s [] = True"
| "startswith [] (p # ps) = False"
| "startswith (x # xs) (p # ps) = (x = p \<and> startswith xs ps)"

fun contains :: "string \<Rightarrow> string \<Rightarrow> bool" where
  "contains [] p = (p = [])"
| "contains (x # xs) p = (startswith (x # xs) p \<or> contains xs p)"

definition icontains :: "string \<Rightarrow> string \<Rightarrow> bool" where
  "icontains s p = contains (map upper_char s) (map upper_char p)"

text \<open>
  \<^verbatim>\<open>PatientConsultationViewSet.patient_from_asset\<close>. The permission of this action is
  \<^verbatim>\<open>IsAssetUser\<close>, so \<open>a\<close> is \<^verbatim>\<open>request.user.asset\<close>; the last argument is
  \<^verbatim>\<open>request.query_params.get("preset_name", None)\<close>, which the source uses when it is a
  non-empty string. Both querysets are built on the model's manager, not on \<open>get_queryset\<close>.
\<close>

definition patient_from_asset ::
  "asset \<Rightarrow> db \<Rightarrow> string option \<Rightarrow> error + patient_consultation_id" where
  "patient_from_asset a d preset_name_param =
     (case first (rev (sort_key consultation_bed_pk
             (filter (\<lambda>cb. (asset_pk a \<in> set (assets cb) \<or> bed_pk (bed cb) \<in> set (bed_set a))
                            \<and> end_date cb = None)
                (ConsultationBed d)))) of
        None \<Rightarrow> Inl (NotFound ''No consultation bed found for this asset'')
      | Some cbed \<Rightarrow>
          (case first (filter (\<lambda>c. current_bed c = Some (consultation_bed_pk cbed)
                                    \<and> is_active (patient c) = True)
                         (rev (sort_key consultation_pk (PatientConsultation d)))) of
             None \<Rightarrow> Inl (NotFound ''No consultation found for this asset'')
           | Some c \<Rightarrow>
               Inr \<lparr>patient_id = patient_external_id (patient c),
                    consultation_id = external_id c,
                    bed_id = bed_external_id (bed cbed),
                    asset_beds =
                      (case preset_name_param of
                         None \<Rightarrow> []
                       | Some preset_name \<Rightarrow>
                           if preset_name = [] then []
                           else filter (\<lambda>ab. current_location (asset_bed_asset ab) = current_location a
                                              \<and> asset_bed_bed ab = bed_pk (bed cbed)
                                              \<and> (case meta__preset_name ab of
                                                    None \<Rightarrow> False
                                                  | Some n \<Rightarrow> icontains n preset_name))
                                  (AssetBed d))\<rparr>))"

section \<open>A small database\<close>

text \<open>
  Concrete rows and users on which the statements below are evaluated: two facilities in
  different states and districts, an active patient in the first and an inactive one in the
  second, one consultation for each, a monitor assigned to the open bed of the first
  consultation, and one user of each kind.
\<close>

definition TYPE_VALUE_MAP_ex :: "string \<Rightarrow> int" where
  "TYPE_VALUE_MAP_ex name =
     (if name = ''StateLabAdmin'' then 35 else if name = ''DistrictLabAdmin'' then 25 else 0)"

definition accessible_ex :: "user \<Rightarrow> nat list" where
  "accessible_ex u = (if user_pk u = 4 then [1] else [])"

definition facility_a :: facility where
  "facility_a = \<lparr>facility_pk = 1, state = Some 10, district = Some 100\<rparr>"

definition facility_b :: facility where
  "facility_b = \<lparr>facility_pk = 2, state = Some 20, district = Some 200\<rparr>"

definition patient_a :: patient where
  "patient_a = \<lparr>patient_external_id = ''p-a'', is_active = True,
                 patient_facility = Some facility_a, assigned_to = None\<rparr>"

definition patient_b :: patient where
  "patient_b = \<lparr>patient_external_id = ''p-b'', is_active = False,
                 patient_facility = Some facility_b, assigned_to = None\<rparr>"

definition consultation_a :: consultation where
  "consultation_a = \<lparr>consultation_pk = 1, external_id = ''c-a'', patient = patient_a,
                      facility = Some 1, current_bed = Some 7, discharge_fields = None\<rparr>"

definition consultation_b :: consultation where
  "consultation_b = \<lparr>consultation_pk = 2, external_id = ''c-b'', patient = patient_b,
                      facility = Some 2, current_bed = None, discharge_fields = None\<rparr>"

definition monitor :: asset where
  "monitor = \<lparr>asset_pk = 3, current_location = Some 9, bed_set = [6]\<rparr>"

definition bed_ex :: bed where
  "bed_ex = \<lparr>bed_pk = 6, bed_external_id = ''b-6''\<rparr>"

definition consultation_bed_ex :: consultation_bed where
  "consultation_bed_ex = \<lparr>consultation_bed_pk = 7, bed = bed_ex, end_date = None, assets = [3]\<rparr>"

definition asset_bed_ex :: asset_bed where
  "asset_bed_ex = \<lparr>asset_bed_pk = 1, asset_bed_asset = monitor, asset_bed_bed = 6,
                    meta__preset_name = Some ''Front View''\<rparr>"

definition consent_ex :: consent where
  "consent_ex = \<lparr>consent_pk = 1, consent_external_id = ''k-1'', consultation = 1,
                  archived = False\<rparr>"

definition db_ex :: db where
  "db_ex = \<lparr>PatientConsultation = [consultation_a, consultation_b],
             PatientConsent = [consent_ex],
             ConsultationBed = [consultation_bed_ex],
             AssetBed = [asset_bed_ex]\<rparr>"

definition root_user :: user where
  "root_user = \<lparr>user_pk = 1, is_superuser = True, user_type = 10, user_state = None,
                 user_district = None, home_facility = None, user_asset = None\<rparr>"

definition state_admin :: user where
  "state_admin = \<lparr>user_pk = 2, is_superuser = False, user_type = 40, user_state = Some 10,
                   user_district = Some 200, home_facility = Some 2, user_asset = None\<rparr>"

definition district_admin :: user where
  "district_admin = \<lparr>user_pk = 3, is_superuser = False, user_type = 30, user_state = Some 20,
                      user_district = Some 100, home_facility = Some 2, user_asset = None\<rparr>"

definition nurse :: user where
  "nurse = \<lparr>user_pk = 4, is_superuser = False, user_type = 14, user_state = Some 10,
             user_district = Some 100, home_facility = Some 1, user_asset = None\<rparr>"

definition device_user :: user where
  "device_user = \<lparr>user_pk = 5, is_superuser = False, user_type = 14, user_state = None,
                   user_district = None, home_facility = None, user_asset = Some monitor\<rparr>"

lemmas ex_defs =
  TYPE_VALUE_MAP_ex_def accessible_ex_def facility_a_def facility_b_def patient_a_def
  patient_b_def consultation_a_def consultation_b_def monitor_def bed_ex_def
  consultation_bed_ex_def asset_bed_ex_def consent_ex_def db_ex_def root_user_def
  state_admin_def district_admin_def nurse_def device_user_def

section \<open>Properties\<close>

subsection \<open>The tiers of the consultation queryset\<close>

lemma set_queryset: "set (queryset d) = set (PatientConsultation d)"
  by (simp add: queryset_def)

text \<open>The filter of \<open>get_queryset\<close> is row-wise, and the condition it applies to a row is the
  one section 4.1 words.\<close>

lemma get_queryset_row_wise:
  "(c \<in> set (get_queryset tvm gaf u d)) =
   (c \<in> set (PatientConsultation d) \<and> build_consultation_predicate tvm gaf u c)"
  by (auto simp add: get_queryset_def set_queryset build_consultation_predicate_def
        applied_filters_def Let_def)

text \<open>
  C2. For a user with \<open>is_superuser\<close> true the consultation queryset keeps every consultation
  row, whatever the row's facility, state and district and whatever the user's other attributes.
\<close>

theorem superuser_matches_all:
  "is_superuser u \<Longrightarrow>
     (c \<in> set (get_queryset tvm gaf u d)) = (c \<in> set (PatientConsultation d))"
  by (simp add: get_queryset_def set_queryset)

theorem superuser_matches_all_witness:
  "is_superuser root_user
   \<and> consultation_b \<in> set (get_queryset TYPE_VALUE_MAP_ex accessible_ex root_user db_ex)"
  using superuser_matches_all [of root_user consultation_b TYPE_VALUE_MAP_ex accessible_ex db_ex]
  by (simp add: ex_defs)

text \<open>
  C3. For a user who is not a superuser and whose \<open>user_type\<close> is at least the value of
  StateLabAdmin, a consultation row is kept if and only if the state of its patient's facility
  equals the user's state. Districts and the home facility do not occur in the condition: the
  branch returns before the later ones are reached.
\<close>

theorem state_tier_matches_by_state:
  "\<not> is_superuser u \<Longrightarrow> tvm ''StateLabAdmin'' \<le> user_type u \<Longrightarrow>
     (c \<in> set (get_queryset tvm gaf u d)) =
     (c \<in> set (PatientConsultation d) \<and> patient__facility__state c = user_state u)"
  by (simp add: get_queryset_def set_queryset)

theorem state_tier_matches_by_state_witness:
  "\<not> is_superuser state_admin \<and> TYPE_VALUE_MAP_ex ''StateLabAdmin'' \<le> user_type state_admin
   \<and> consultation_a \<in> set (get_queryset TYPE_VALUE_MAP_ex accessible_ex state_admin db_ex)
   \<and> consultation_b \<notin> set (get_queryset TYPE_VALUE_MAP_ex accessible_ex state_admin db_ex)"
  using state_tier_matches_by_state
          [of state_admin TYPE_VALUE_MAP_ex consultation_a accessible_ex db_ex]
        state_tier_matches_by_state
          [of state_admin TYPE_VALUE_MAP_ex consultation_b accessible_ex db_ex]
  by (simp add: ex_defs patient__facility__state_def)

text \<open>
  C4. For a user who is not a superuser and whose \<open>user_type\<close> is at least the value of
  DistrictLabAdmin and below that of StateLabAdmin, a consultation row is kept if and only if
  the district of its patient's facility equals the user's district.
\<close>

theorem district_tier_matches_by_district:
  "\<not> is_superuser u \<Longrightarrow> tvm ''DistrictLabAdmin'' \<le> user_type u \<Longrightarrow>
   user_type u < tvm ''StateLabAdmin'' \<Longrightarrow>
     (c \<in> set (get_queryset tvm gaf u d)) =
     (c \<in> set (PatientConsultation d) \<and> patient__facility__district c = user_district u)"
  by (simp add: get_queryset_def set_queryset)

theorem district_tier_matches_by_district_witness:
  "\<not> is_superuser district_admin
   \<and> TYPE_VALUE_MAP_ex ''DistrictLabAdmin'' \<le> user_type district_admin
   \<and> user_type district_admin < TYPE_VALUE_MAP_ex ''StateLabAdmin''
   \<and> consultation_a \<in> set (get_queryset TYPE_VALUE_MAP_ex accessible_ex district_admin db_ex)
   \<and> consultation_b \<notin> set (get_queryset TYPE_VALUE_MAP_ex accessible_ex district_admin db_ex)"
  using district_tier_matches_by_district
          [of district_admin TYPE_VALUE_MAP_ex consultation_a accessible_ex db_ex]
        district_tier_matches_by_district
          [of district_admin TYPE_VALUE_MAP_ex consultation_b accessible_ex db_ex]
  by (simp add: ex_defs patient__facility__district_def)

text \<open>
  C5. For a general user (not a superuser, \<open>user_type\<close> below the value of DistrictLabAdmin,
  in a table where DistrictLabAdmin is not above StateLabAdmin), with \<open>gaf u\<close> the accessible
  facilities, a consultation row is kept if and only if its patient is active in a facility of
  \<open>gaf u\<close>, or its own facility is the user's home facility. Either disjunct suffices, and the
  consultation of an inactive patient outside the home facility is not kept.
\<close>

theorem general_user_matches:
  "\<not> is_superuser u \<Longrightarrow> user_type u < tvm ''DistrictLabAdmin'' \<Longrightarrow>
   tvm ''DistrictLabAdmin'' \<le> tvm ''StateLabAdmin'' \<Longrightarrow>
     (c \<in> set (get_queryset tvm gaf u d)) =
     (c \<in> set (PatientConsultation d) \<and>
      ((is_active (patient c) \<and>
        (\<exists>f. patient_facility (patient c) = Some f \<and> facility_pk f \<in> set (gaf u)))
       \<or> facility c = home_facility u))"
  by (auto simp add: get_queryset_def set_queryset applied_filters_def
        patient__facility__id__in_def split: option.splits)

theorem general_user_matches_witness:
  "\<not> is_superuser nurse \<and> user_type nurse < TYPE_VALUE_MAP_ex ''DistrictLabAdmin''
   \<and> TYPE_VALUE_MAP_ex ''DistrictLabAdmin'' \<le> TYPE_VALUE_MAP_ex ''StateLabAdmin''
   \<and> consultation_a \<in> set (get_queryset TYPE_VALUE_MAP_ex accessible_ex nurse db_ex)
   \<and> consultation_b \<notin> set (get_queryset TYPE_VALUE_MAP_ex accessible_ex nurse db_ex)"
  using general_user_matches [of nurse TYPE_VALUE_MAP_ex consultation_a accessible_ex db_ex]
        general_user_matches [of nurse TYPE_VALUE_MAP_ex consultation_b accessible_ex db_ex]
  by (simp add: ex_defs)

subsection \<open>Assignment of the patient\<close>

lemma predicate_ignores_assigned_to:
  "build_consultation_predicate tvm gaf u (c\<lparr>patient := (patient c)\<lparr>assigned_to := a\<rparr>\<rparr>) =
   build_consultation_predicate tvm gaf u c"
  by (simp add: build_consultation_predicate_def patient__facility__state_def
        patient__facility__district_def patient__facility__id__in_def)

text \<open>
  C10. For a general user, whether a consultation row is kept does not depend on whom its
  patient is assigned to: two rows that differ only in the patient's \<open>assigned_to\<close> are both
  kept or both dropped, so being the assignee alone does not make a consultation visible.
\<close>

theorem assignment_does_not_grant_visibility:
  "\<not> is_superuser u \<Longrightarrow> user_type u < tvm ''DistrictLabAdmin'' \<Longrightarrow>
   tvm ''DistrictLabAdmin'' \<le> tvm ''StateLabAdmin'' \<Longrightarrow>
   c \<in> set (PatientConsultation d) \<Longrightarrow> c' \<in> set (PatientConsultation d') \<Longrightarrow>
   c' = c\<lparr>patient := (patient c)\<lparr>assigned_to := a\<rparr>\<rparr> \<Longrightarrow>
     (c' \<in> set (get_queryset tvm gaf u d')) = (c \<in> set (get_queryset tvm gaf u d))"
  by (simp add: get_queryset_row_wise predicate_ignores_assigned_to)

theorem assignment_does_not_grant_visibility_witness:
  "\<not> is_superuser nurse \<and> user_type nurse < TYPE_VALUE_MAP_ex ''DistrictLabAdmin''
   \<and> TYPE_VALUE_MAP_ex ''DistrictLabAdmin'' \<le> TYPE_VALUE_MAP_ex ''StateLabAdmin''
   \<and> consultation_b \<in> set (PatientConsultation db_ex)
   \<and> consultation_b\<lparr>patient := (patient consultation_b)\<lparr>assigned_to := Some (user_pk nurse)\<rparr>\<rparr>
       \<in> set (PatientConsultation
                (db_ex\<lparr>PatientConsultation :=
                   [consultation_a,
                    consultation_b\<lparr>patient := (patient consultation_b)\<lparr>assigned_to := Some (user_pk nurse)\<rparr>\<rparr>]\<rparr>))
   \<and> consultation_b\<lparr>patient := (patient consultation_b)\<lparr>assigned_to := Some (user_pk nurse)\<rparr>\<rparr>
       \<notin> set (get_queryset TYPE_VALUE_MAP_ex accessible_ex nurse
                (db_ex\<lparr>PatientConsultation :=
                   [consultation_a,
                    consultation_b\<lparr>patient := (patient consultation_b)\<lparr>assigned_to := Some (user_pk nurse)\<rparr>\<rparr>]\<rparr>))"
proof -
  let ?c' = "consultation_b\<lparr>patient := (patient consultation_b)\<lparr>assigned_to := Some (user_pk nurse)\<rparr>\<rparr>"
  let ?d' = "db_ex\<lparr>PatientConsultation := [consultation_a, ?c']\<rparr>"
  have h: "\<not> is_superuser nurse" "user_type nurse < TYPE_VALUE_MAP_ex ''DistrictLabAdmin''"
    "TYPE_VALUE_MAP_ex ''DistrictLabAdmin'' \<le> TYPE_VALUE_MAP_ex ''StateLabAdmin''"
    "consultation_b \<in> set (PatientConsultation db_ex)"
    "?c' \<in> set (PatientConsultation ?d')"
    by (simp_all add: ex_defs)
  have b: "consultation_b \<notin> set (get_queryset TYPE_VALUE_MAP_ex accessible_ex nurse db_ex)"
    by (simp add: get_queryset_row_wise build_consultation_predicate_def
          patient__facility__id__in_def ex_defs)
  from assignment_does_not_grant_visibility [OF h refl, of accessible_ex] b
  have "?c' \<notin> set (get_queryset TYPE_VALUE_MAP_ex accessible_ex nurse ?d')" by blast
  with h show ?thesis by blast
qed

subsection \<open>Consents\<close>

lemma get_object_or_404_Inr: "get_object_or_404 xs = Inr x \<Longrightarrow> xs = [x]"
  by (cases xs rule: get_object_or_404.cases) auto

lemma filter_unique_key:
  "distinct (map key xs) \<Longrightarrow> c \<in> set xs \<Longrightarrow> P c \<Longrightarrow>
     filter (\<lambda>r. key r = key c \<and> P r) xs = [c]"
proof (induction xs)
  case Nil
  then show ?case by simp
next
  case (Cons r rs)
  show ?case
  proof (cases "r = c")
    case True
    with Cons.prems have "\<forall>y\<in>set rs. key y \<noteq> key c" by (auto simp: image_iff)
    then have "filter (\<lambda>r. key r = key c \<and> P r) rs = []" by (auto simp: filter_empty_conv)
    with True Cons.prems show ?thesis by simp
  next
    case False
    with Cons.prems have "c \<in> set rs" "key r \<noteq> key c" by auto
    with Cons show ?thesis by simp
  qed
qed

lemma get_consultation_obj_Inr:
  assumes "get_consultation_obj tvm gaf u d x = Inr c"
  shows "c \<in> set (PatientConsultation d) \<and> x = UUID (external_id c)
         \<and> build_consultation_predicate tvm gaf u c"
proof (cases x)
  case (UUID v)
  with assms have "filter (\<lambda>c. external_id c = v) (get_consultation_queryset tvm gaf u d) = [c]"
    unfolding get_consultation_obj_def by (simp add: get_object_or_404_Inr)
  then have "c \<in> set (filter (\<lambda>c. external_id c = v) (get_consultation_queryset tvm gaf u d))"
    by simp
  with UUID show ?thesis by (simp add: get_consultation_queryset_def)
next
  case (NotUUID s)
  with assms show ?thesis by (simp add: get_consultation_obj_def)
qed

lemma get_consultation_obj_found:
  assumes "distinct (map external_id (PatientConsultation d))"
    and "c \<in> set (PatientConsultation d)" and "build_consultation_predicate tvm gaf u c"
  shows "get_consultation_obj tvm gaf u d (UUID (external_id c)) = Inr c"
proof -
  have "filter (\<lambda>r. external_id r = external_id c \<and> build_consultation_predicate tvm gaf u r)
          (PatientConsultation d) = [c]"
    using assms by (rule filter_unique_key)
  then show ?thesis
    by (simp add: get_consultation_obj_def get_consultation_queryset_def conj_commute)
qed

lemma get_consultation_obj_missing:
  assumes "\<forall>c\<in>set (PatientConsultation d).
             \<not> (external_id c = v \<and> build_consultation_predicate tvm gaf u c)"
  shows "get_consultation_obj tvm gaf u d (UUID v) = Inl Http404"
proof -
  have "filter (\<lambda>c. external_id c = v) (get_consultation_queryset tvm gaf u d) = []"
    using assms by (auto simp: get_consultation_queryset_def filter_empty_conv)
  then show ?thesis by (simp add: get_consultation_obj_def)
qed

lemma consent_visible_iff:
  assumes ext: "distinct (map external_id (PatientConsultation d))"
    and pks: "distinct (map consultation_pk (PatientConsultation d))"
    and k: "k \<in> set (PatientConsent d)" and c: "c \<in> set (PatientConsultation d)"
    and parent: "consultation k = consultation_pk c"
  shows "(\<exists>ks. consent_get_queryset tvm gaf u d x = Inr ks \<and> k \<in> set ks) =
         (x = UUID (external_id c) \<and> build_consultation_predicate tvm gaf u c)"
proof
  assume "\<exists>ks. consent_get_queryset tvm gaf u d x = Inr ks \<and> k \<in> set ks"
  then obtain ks where ks: "consent_get_queryset tvm gaf u d x = Inr ks" "k \<in> set ks" by blast
  then obtain obj where obj: "get_consultation_obj tvm gaf u d x = Inr obj"
    and ks_eq: "ks = filter (\<lambda>k. consultation k = consultation_pk obj) (PatientConsent d)"
    by (auto simp: consent_get_queryset_def split: sum.splits)
  from obj have o: "obj \<in> set (PatientConsultation d)" "x = UUID (external_id obj)"
    "build_consultation_predicate tvm gaf u obj"
    using get_consultation_obj_Inr by blast+
  from ks(2) ks_eq parent have "consultation_pk obj = consultation_pk c" by simp
  with pks o(1) c have "obj = c" by (meson distinct_map inj_onD)
  with o show "x = UUID (external_id c) \<and> build_consultation_predicate tvm gaf u c" by simp
next
  assume a: "x = UUID (external_id c) \<and> build_consultation_predicate tvm gaf u c"
  then have "get_consultation_obj tvm gaf u d x = Inr c"
    using get_consultation_obj_found [OF ext c] by simp
  then show "\<exists>ks. consent_get_queryset tvm gaf u d x = Inr ks \<and> k \<in> set ks"
    using k parent by (simp add: consent_get_queryset_def)
qed

text \<open>
  What holds of the consent queryset when the identifier of the path is the text \<open>v\<close> of a
  UUID: with no visible consultation of that identifier the result is \<^verbatim>\<open>Http404\<close>; a consent
  is returned if and only if its parent consultation has identifier \<open>v\<close> and is visible; and
  the parent of every consent returned is visible.
\<close>

lemma consent_queryset_of_uuid:
  "((\<forall>c\<in>set (get_queryset tvm gaf u d). external_id c \<noteq> v) \<longrightarrow>
      consent_get_queryset tvm gaf u d (UUID v) = Inl Http404)
   \<and> (distinct (map external_id (PatientConsultation d)) \<longrightarrow>
      distinct (map consultation_pk (PatientConsultation d)) \<longrightarrow>
      k \<in> set (PatientConsent d) \<longrightarrow> c \<in> set (PatientConsultation d) \<longrightarrow>
      consultation k = consultation_pk c \<longrightarrow>
        (\<exists>ks. consent_get_queryset tvm gaf u d (UUID v) = Inr ks \<and> k \<in> set ks) =
        (external_id c = v \<and> c \<in> set (get_queryset tvm gaf u d)))
   \<and> (\<forall>ks. consent_get_queryset tvm gaf u d (UUID v) = Inr ks \<longrightarrow>
        (\<forall>k'\<in>set ks. \<exists>c'\<in>set (get_queryset tvm gaf u d).
           consultation k' = consultation_pk c' \<and> external_id c' = v))"
proof -
  have missing: "consent_get_queryset tvm gaf u d (UUID v) = Inl Http404"
    if "\<forall>c\<in>set (get_queryset tvm gaf u d). external_id c \<noteq> v"
  proof -
    from that have "get_consultation_obj tvm gaf u d (UUID v) = Inl Http404"
      by (intro get_consultation_obj_missing) (auto simp: get_queryset_row_wise)
    then show ?thesis by (simp add: consent_get_queryset_def)
  qed
  have iff: "(\<exists>ks. consent_get_queryset tvm gaf u d (UUID v) = Inr ks \<and> k \<in> set ks) =
        (external_id c = v \<and> c \<in> set (get_queryset tvm gaf u d))"
    if "distinct (map external_id (PatientConsultation d))"
      "distinct (map consultation_pk (PatientConsultation d))"
      "k \<in> set (PatientConsent d)" "c \<in> set (PatientConsultation d)"
      "consultation k = consultation_pk c"
    using that by (auto simp add: consent_visible_iff get_queryset_row_wise)
  have subset: "\<exists>c'\<in>set (get_queryset tvm gaf u d).
           consultation k' = consultation_pk c' \<and> external_id c' = v"
    if ks: "consent_get_queryset tvm gaf u d (UUID v) = Inr ks" and k': "k' \<in> set ks" for ks k'
  proof -
    from ks obtain obj where obj: "get_consultation_obj tvm gaf u d (UUID v) = Inr obj"
      and ks_eq: "ks = filter (\<lambda>k. consultation k = consultation_pk obj) (PatientConsent d)"
      by (auto simp: consent_get_queryset_def split: sum.splits)
    from get_consultation_obj_Inr [OF obj]
    have "obj \<in> set (get_queryset tvm gaf u d)" "external_id obj = v"
      by (auto simp: get_queryset_row_wise)
    moreover from k' ks_eq have "consultation k' = consultation_pk obj" by simp
    ultimately show ?thesis by blast
  qed
  from missing iff subset show ?thesis by blast
qed

text \<open>
  C6 requires, for every identifier of the path, that the consent list or retrieve operation
  fails with NotFound when no consultation with that identifier is visible to the user. The
  code does not do so for an identifier that is not a UUID: for the string \<^verbatim>\<open>not-a-uuid\<close>, of
  which no consultation is visible to the nurse, the consent queryset raises the ORM's
  \<^verbatim>\<open>ValidationError\<close>, which is neither NotFound nor a list, while the consultation view's own
  \<open>get_object\<close> answers \<^verbatim>\<open>Http404\<close> for the same string.
\<close>

theorem consent_lookup_not_uuid:
  "consent_get_queryset TYPE_VALUE_MAP_ex accessible_ex nurse db_ex (NotUUID ''not-a-uuid'') =
     Inl DjangoValidationError
   \<and> ''not-a-uuid'' \<notin> external_id ` set (get_queryset TYPE_VALUE_MAP_ex accessible_ex nurse db_ex)
   \<and> get_object TYPE_VALUE_MAP_ex accessible_ex nurse db_ex
        \<lparr>patient_param = None, facility_param = None\<rparr> ''not-a-uuid'' = Inl Http404"
proof -
  have vis: "set (get_queryset TYPE_VALUE_MAP_ex accessible_ex nurse db_ex) = {consultation_a}"
    by (auto simp add: get_queryset_row_wise build_consultation_predicate_def
          patient__facility__id__in_def ex_defs)
  have a: "consent_get_queryset TYPE_VALUE_MAP_ex accessible_ex nurse db_ex
             (NotUUID ''not-a-uuid'') = Inl DjangoValidationError"
    by (simp add: consent_get_queryset_def get_consultation_obj_def)
  have b: "''not-a-uuid'' \<notin> external_id ` set (get_queryset TYPE_VALUE_MAP_ex accessible_ex nurse db_ex)"
    by (simp add: vis) (simp add: ex_defs)
  have c: "get_object TYPE_VALUE_MAP_ex accessible_ex nurse db_ex
        \<lparr>patient_param = None, facility_param = None\<rparr> ''not-a-uuid'' = Inl Http404"
    by (simp add: get_object_def PatientConsultationFilter_def get_queryset_def queryset_def
          applied_filters_def patient__facility__id__in_def ex_defs)
  from a b c show ?thesis by blast
qed

subsection \<open>Which operations apply the predicate\<close>

lemma get_object_Inr:
  "get_object tvm gaf u d q x = Inr c \<Longrightarrow>
     c \<in> set (get_queryset tvm gaf u d) \<and> external_id c = x"
proof -
  assume "get_object tvm gaf u d q x = Inr c"
  then have "filter (\<lambda>c. external_id c = x)
               (PatientConsultationFilter q (get_queryset tvm gaf u d)) = [c]"
    unfolding get_object_def by (rule get_object_or_404_Inr)
  then have "c \<in> set (filter (\<lambda>c. external_id c = x)
               (PatientConsultationFilter q (get_queryset tvm gaf u d)))"
    by simp
  then show ?thesis by (simp add: PatientConsultationFilter_def)
qed

text \<open>
  C1, as the code has it. For every user, a consultation row is in the queryset that the list,
  retrieve, update and discharge operations work on if and only if it is in the table and the
  access predicate of section 4.1 holds of it for that user; the object that retrieve and
  discharge find satisfies the predicate; and, in a database whose consultations have distinct
  primary keys and distinct external identifiers, a consent is returned by the consent
  queryset for some path identifier if and only if the predicate holds of its parent
  consultation. The lookup of the patient of an asset is not among these operations: its
  permission is \<^verbatim>\<open>IsAssetUser\<close> and it selects by bed assignment.
\<close>

theorem queryset_applies_predicate:
  "(c \<in> set (get_queryset tvm gaf u d)) =
     (c \<in> set (PatientConsultation d) \<and> build_consultation_predicate tvm gaf u c)
   \<and> (\<forall>q x r. get_object tvm gaf u d q x = Inr r \<longrightarrow>
        r \<in> set (PatientConsultation d) \<and> build_consultation_predicate tvm gaf u r)
   \<and> (distinct (map external_id (PatientConsultation d)) \<longrightarrow>
      distinct (map consultation_pk (PatientConsultation d)) \<longrightarrow>
      k \<in> set (PatientConsent d) \<longrightarrow> c \<in> set (PatientConsultation d) \<longrightarrow>
      consultation k = consultation_pk c \<longrightarrow>
        (\<exists>x ks. consent_get_queryset tvm gaf u d x = Inr ks \<and> k \<in> set ks) =
        build_consultation_predicate tvm gaf u c)"
proof -
  have list: "(c \<in> set (get_queryset tvm gaf u d)) =
     (c \<in> set (PatientConsultation d) \<and> build_consultation_predicate tvm gaf u c)"
    by (rule get_queryset_row_wise)
  have object: "\<forall>q x r. get_object tvm gaf u d q x = Inr r \<longrightarrow>
        r \<in> set (PatientConsultation d) \<and> build_consultation_predicate tvm gaf u r"
  proof (intro allI impI)
    fix q x r
    assume "get_object tvm gaf u d q x = Inr r"
    then have "r \<in> set (get_queryset tvm gaf u d)" using get_object_Inr by blast
    then show "r \<in> set (PatientConsultation d) \<and> build_consultation_predicate tvm gaf u r"
      by (simp add: get_queryset_row_wise)
  qed
  have consents: "(\<exists>x ks. consent_get_queryset tvm gaf u d x = Inr ks \<and> k \<in> set ks) =
        build_consultation_predicate tvm gaf u c"
    if wf: "distinct (map external_id (PatientConsultation d))"
      "distinct (map consultation_pk (PatientConsultation d))"
      "k \<in> set (PatientConsent d)" "c \<in> set (PatientConsultation d)"
      "consultation k = consultation_pk c"
  proof -
    have "\<And>x. (\<exists>ks. consent_get_queryset tvm gaf u d x = Inr ks \<and> k \<in> set ks) =
           (x = UUID (external_id c) \<and> build_consultation_predicate tvm gaf u c)"
      using wf by (rule consent_visible_iff)
    then show ?thesis by auto
  qed
  from list object consents show ?thesis by blast
qed

theorem queryset_applies_predicate_witness:
  "distinct (map external_id (PatientConsultation db_ex))
   \<and> distinct (map consultation_pk (PatientConsultation db_ex))
   \<and> consent_ex \<in> set (PatientConsent db_ex) \<and> consultation_a \<in> set (PatientConsultation db_ex)
   \<and> consultation consent_ex = consultation_pk consultation_a
   \<and> build_consultation_predicate TYPE_VALUE_MAP_ex accessible_ex nurse consultation_a
   \<and> consultation_a \<in> set (get_queryset TYPE_VALUE_MAP_ex accessible_ex nurse db_ex)
   \<and> (\<exists>x ks. consent_get_queryset TYPE_VALUE_MAP_ex accessible_ex nurse db_ex x = Inr ks
             \<and> consent_ex \<in> set ks)"
proof -
  have wf: "distinct (map external_id (PatientConsultation db_ex))"
    "distinct (map consultation_pk (PatientConsultation db_ex))"
    "consent_ex \<in> set (PatientConsent db_ex)" "consultation_a \<in> set (PatientConsultation db_ex)"
    "consultation consent_ex = consultation_pk consultation_a"
    by (simp_all add: ex_defs)
  have p: "build_consultation_predicate TYPE_VALUE_MAP_ex accessible_ex nurse consultation_a"
    by (simp add: build_consultation_predicate_def patient__facility__id__in_def ex_defs)
  from queryset_applies_predicate
         [of consultation_a TYPE_VALUE_MAP_ex accessible_ex nurse db_ex consent_ex] wf p
  have "consultation_a \<in> set (get_queryset TYPE_VALUE_MAP_ex accessible_ex nurse db_ex)
     \<and> (\<exists>x ks. consent_get_queryset TYPE_VALUE_MAP_ex accessible_ex nurse db_ex x = Inr ks
             \<and> consent_ex \<in> set ks)"
    by blast
  with wf p show ?thesis by blast
qed

text \<open>
  C1, as stated, fails on the lookup of the patient of an asset: for the user of the monitor,
  \<open>patient_from_asset\<close> returns the identifiers of a consultation of which the access predicate
  is false for that user.
\<close>

theorem asset_lookup_bypasses_predicate:
  "user_asset device_user = Some monitor
   \<and> consultation_a \<in> set (PatientConsultation db_ex)
   \<and> patient_from_asset monitor db_ex None =
       Inr \<lparr>patient_id = patient_external_id (patient consultation_a),
            consultation_id = external_id consultation_a,
            bed_id = ''b-6'', asset_beds = []\<rparr>
   \<and> \<not> build_consultation_predicate TYPE_VALUE_MAP_ex accessible_ex device_user consultation_a"
  by (simp add: patient_from_asset_def build_consultation_predicate_def
        patient__facility__id__in_def ex_defs)

subsection \<open>The patient of an asset\<close>

lemma first_None: "(first xs = None) = (xs = [])"
  by (cases xs) simp_all

lemma first_Some: "first xs = Some x \<Longrightarrow> \<exists>ys. xs = x # ys"
  by (cases xs) simp_all

lemma first_latest_None:
  "(first (rev (sort_key f (filter P xs))) = None) = (\<forall>x\<in>set xs. \<not> P x)"
proof -
  have "(sort_key f (filter P xs) = []) = (filter P xs = [])"
    by (metis length_sort length_0_conv)
  then show ?thesis by (simp add: first_None filter_empty_conv)
qed

lemma first_latest_Some:
  fixes f :: "'a \<Rightarrow> nat"
  assumes "first (rev (sort_key f (filter P xs))) = Some x"
  shows "x \<in> set xs \<and> P x \<and> (\<forall>y\<in>set xs. P y \<longrightarrow> f y \<le> f x)"
proof -
  let ?s = "sort_key f (filter P xs)"
  from assms have "\<exists>ys. rev ?s = x # ys" by (rule first_Some)
  then obtain ys where "rev ?s = x # ys" ..
  then have "rev (rev ?s) = rev (x # ys)" by (rule arg_cong)
  then have s: "?s = rev ys @ [x]" by simp
  have xin: "x \<in> set ?s" unfolding s by simp
  have mem: "y \<in> set ys \<or> y = x" if "y \<in> set ?s" for y
    using that unfolding s by auto
  have "sorted (map f ?s)" by (rule sorted_sort_key)
  then have "sorted (map f (rev ys @ [x]))" unfolding s .
  then have le: "\<forall>y\<in>set ys. f y \<le> f x" by (simp add: sorted_append)
  from xin have x1: "x \<in> set xs" and x2: "P x" by simp_all
  have x3: "\<forall>y\<in>set xs. P y \<longrightarrow> f y \<le> f x"
  proof (intro ballI impI)
    fix y assume "y \<in> set xs" "P y"
    then have "y \<in> set ?s" by simp
    then have "y \<in> set ys \<or> y = x" by (rule mem)
    with le show "f y \<le> f x" by auto
  qed
  from x1 x2 x3 show ?thesis by simp
qed

lemma filter_latest:
  "filter P (rev (sort_key f xs)) = rev (sort_key f (filter P xs))"
proof -
  have "filter P (rev (sort_key f xs)) = rev (filter P (sort_key f xs))"
    by (rule rev_filter [symmetric])
  then show ?thesis by (simp only: filter_sort)
qed

text \<open>
  C8. For the asset \<open>a\<close> of the caller, call a consultation bed open for \<open>a\<close> when it has
  no end date and either lists \<open>a\<close> among its assets or is on a bed linked to \<open>a\<close>. If no
  consultation bed is open for \<open>a\<close>, the lookup fails with NotFound. Otherwise it selects an
  open one with the highest primary key; if no consultation with an active patient has it as
  its current bed, the lookup fails with NotFound; otherwise the lookup returns the patient
  identifier and the identifier of such a consultation with the highest primary key, the
  identifier of the bed, and a list of asset beds.
\<close>

theorem patient_from_asset_selects_latest:
  "let is_open = (\<lambda>cb. (asset_pk a \<in> set (assets cb) \<or> bed_pk (bed cb) \<in> set (bed_set a))
                         \<and> end_date cb = None);
       placed = (\<lambda>cb c. current_bed c = Some (consultation_bed_pk cb) \<and> is_active (patient c));
       result = patient_from_asset a d preset
   in ((\<forall>cb\<in>set (ConsultationBed d). \<not> is_open cb) \<longrightarrow>
         result = Inl (NotFound ''No consultation bed found for this asset''))
      \<and> ((\<exists>cb\<in>set (ConsultationBed d). is_open cb) \<longrightarrow>
           (\<exists>cb\<in>set (ConsultationBed d). is_open cb
              \<and> (\<forall>cb'\<in>set (ConsultationBed d).
                    is_open cb' \<longrightarrow> consultation_bed_pk cb' \<le> consultation_bed_pk cb)
              \<and> ((\<forall>c\<in>set (PatientConsultation d). \<not> placed cb c) \<longrightarrow>
                    result = Inl (NotFound ''No consultation found for this asset''))
              \<and> ((\<exists>c\<in>set (PatientConsultation d). placed cb c) \<longrightarrow>
                    (\<exists>c\<in>set (PatientConsultation d). placed cb c
                       \<and> (\<forall>c'\<in>set (PatientConsultation d).
                             placed cb c' \<longrightarrow> consultation_pk c' \<le> consultation_pk c)
                       \<and> (\<exists>presets. set presets \<subseteq> set (AssetBed d)
                             \<and> result = Inr \<lparr>patient_id = patient_external_id (patient c),
                                             consultation_id = external_id c,
                                             bed_id = bed_external_id (bed cb),
                                             asset_beds = presets\<rparr>)))))"
proof -
  let ?is_open = "\<lambda>cb. (asset_pk a \<in> set (assets cb) \<or> bed_pk (bed cb) \<in> set (bed_set a))
                         \<and> end_date cb = None"
  let ?placed = "\<lambda>cb c. current_bed c = Some (consultation_bed_pk cb) \<and> is_active (patient c)"
  let ?beds = "first (rev (sort_key consultation_bed_pk (filter ?is_open (ConsultationBed d))))"
  let ?result = "patient_from_asset a d preset"
  have none: "?result = Inl (NotFound ''No consultation bed found for this asset'')"
    if "\<forall>cb\<in>set (ConsultationBed d). \<not> ?is_open cb"
  proof -
    from that have "?beds = None" by (simp only: first_latest_None) 
    then show ?thesis by (simp add: patient_from_asset_def)
  qed
  have some: "\<exists>cb\<in>set (ConsultationBed d). ?is_open cb
              \<and> (\<forall>cb'\<in>set (ConsultationBed d).
                    ?is_open cb' \<longrightarrow> consultation_bed_pk cb' \<le> consultation_bed_pk cb)
              \<and> ((\<forall>c\<in>set (PatientConsultation d). \<not> ?placed cb c) \<longrightarrow>
                    ?result = Inl (NotFound ''No consultation found for this asset''))
              \<and> ((\<exists>c\<in>set (PatientConsultation d). ?placed cb c) \<longrightarrow>
                    (\<exists>c\<in>set (PatientConsultation d). ?placed cb c
                       \<and> (\<forall>c'\<in>set (PatientConsultation d).
                             ?placed cb c' \<longrightarrow> consultation_pk c' \<le> consultation_pk c)
                       \<and> (\<exists>presets. set presets \<subseteq> set (AssetBed d)
                             \<and> ?result = Inr \<lparr>patient_id = patient_external_id (patient c),
                                             consultation_id = external_id c,
                                             bed_id = bed_external_id (bed cb),
                                             asset_beds = presets\<rparr>)))"
    if ex: "\<exists>cb\<in>set (ConsultationBed d). ?is_open cb"
  proof -
    from ex have "?beds \<noteq> None" by (simp only: first_latest_None) blast
    then obtain cb where cb: "?beds = Some cb" by blast
    from first_latest_Some [OF cb]
    have cb_in: "cb \<in> set (ConsultationBed d)" and cb_open: "?is_open cb"
      and cb_max: "\<forall>cb'\<in>set (ConsultationBed d).
                    ?is_open cb' \<longrightarrow> consultation_bed_pk cb' \<le> consultation_bed_pk cb"
      by blast+
    let ?cons = "first (rev (sort_key consultation_pk (filter (?placed cb) (PatientConsultation d))))"
    have unfold: "?result =
       (case ?cons of
          None \<Rightarrow> Inl (NotFound ''No consultation found for this asset'')
        | Some c \<Rightarrow>
            Inr \<lparr>patient_id = patient_external_id (patient c),
                 consultation_id = external_id c,
                 bed_id = bed_external_id (bed cb),
                 asset_beds =
                   (case preset of
                      None \<Rightarrow> []
                    | Some preset_name \<Rightarrow>
                        if preset_name = [] then []
                        else filter (\<lambda>ab. current_location (asset_bed_asset ab) = current_location a
                                           \<and> asset_bed_bed ab = bed_pk (bed cb)
                                           \<and> (case meta__preset_name ab of
                                                 None \<Rightarrow> False
                                               | Some n \<Rightarrow> icontains n preset_name))
                               (AssetBed d))\<rparr>)"
      using cb by (simp add: patient_from_asset_def filter_latest)
    have no_c: "?result = Inl (NotFound ''No consultation found for this asset'')"
      if "\<forall>c\<in>set (PatientConsultation d). \<not> ?placed cb c"
    proof -
      from that have "?cons = None" by (simp only: first_latest_None)
      then show ?thesis by (simp add: unfold)
    qed
    have some_c: "\<exists>c\<in>set (PatientConsultation d). ?placed cb c
                       \<and> (\<forall>c'\<in>set (PatientConsultation d).
                             ?placed cb c' \<longrightarrow> consultation_pk c' \<le> consultation_pk c)
                       \<and> (\<exists>presets. set presets \<subseteq> set (AssetBed d)
                             \<and> ?result = Inr \<lparr>patient_id = patient_external_id (patient c),
                                             consultation_id = external_id c,
                                             bed_id = bed_external_id (bed cb),
                                             asset_beds = presets\<rparr>)"
      if exc: "\<exists>c\<in>set (PatientConsultation d). ?placed cb c"
    proof -
      from exc have "?cons \<noteq> None" by (simp only: first_latest_None) blast
      then obtain c where c: "?cons = Some c" by blast
      from first_latest_Some [OF c]
      have c_props: "c \<in> set (PatientConsultation d)" "?placed cb c"
        "\<forall>c'\<in>set (PatientConsultation d).
            ?placed cb c' \<longrightarrow> consultation_pk c' \<le> consultation_pk c"
        by blast+
      have "\<exists>presets. set presets \<subseteq> set (AssetBed d)
                \<and> ?result = Inr \<lparr>patient_id = patient_external_id (patient c),
                                 consultation_id = external_id c,
                                 bed_id = bed_external_id (bed cb),
                                 asset_beds = presets\<rparr>"
        using c by (auto simp add: unfold split: option.splits)
      with c_props show ?thesis by blast
    qed
    from cb_in cb_open cb_max no_c some_c show ?thesis by blast
  qed
  from none some show ?thesis unfolding Let_def by blast
qed

theorem patient_from_asset_selects_latest_witness:
  "(\<exists>cb\<in>set (ConsultationBed db_ex).
       (asset_pk monitor \<in> set (assets cb) \<or> bed_pk (bed cb) \<in> set (bed_set monitor))
       \<and> end_date cb = None)
   \<and> (\<exists>c\<in>set (PatientConsultation db_ex).
         current_bed c = Some (consultation_bed_pk consultation_bed_ex) \<and> is_active (patient c))
   \<and> (\<exists>presets. patient_from_asset monitor db_ex (Some ''front'') =
         Inr \<lparr>patient_id = ''p-a'', consultation_id = ''c-a'', bed_id = ''b-6'',
              asset_beds = presets\<rparr>)"
proof -
  let ?is_open = "\<lambda>cb. (asset_pk monitor \<in> set (assets cb) \<or> bed_pk (bed cb) \<in> set (bed_set monitor))
                         \<and> end_date cb = None"
  let ?placed = "\<lambda>cb c. current_bed c = Some (consultation_bed_pk cb) \<and> is_active (patient c)"
  have beds: "set (ConsultationBed db_ex) = {consultation_bed_ex}"
    by (simp add: db_ex_def)
  have rows: "set (PatientConsultation db_ex) = {consultation_a, consultation_b}"
    by (simp add: db_ex_def)
  have ex_bed: "\<exists>cb\<in>set (ConsultationBed db_ex). ?is_open cb"
    by (simp add: beds) (simp add: ex_defs)
  have ex_row: "\<exists>c\<in>set (PatientConsultation db_ex). ?placed consultation_bed_ex c"
    by (simp add: rows) (simp add: ex_defs)
  have only_a: "c = consultation_a"
    if "c \<in> set (PatientConsultation db_ex)" "?placed consultation_bed_ex c" for c
    using that by (auto simp add: rows) (simp add: ex_defs)
  from patient_from_asset_selects_latest [of monitor db_ex "Some ''front''", unfolded Let_def] ex_bed
  obtain cb where cb: "cb \<in> set (ConsultationBed db_ex)"
    and found: "(\<exists>c\<in>set (PatientConsultation db_ex). ?placed cb c) \<longrightarrow>
                    (\<exists>c\<in>set (PatientConsultation db_ex). ?placed cb c
                       \<and> (\<exists>presets. set presets \<subseteq> set (AssetBed db_ex)
                             \<and> patient_from_asset monitor db_ex (Some ''front'') =
                                 Inr \<lparr>patient_id = patient_external_id (patient c),
                                      consultation_id = external_id c,
                                      bed_id = bed_external_id (bed cb),
                                      asset_beds = presets\<rparr>))"
    by blast
  from cb beds have cb_eq: "cb = consultation_bed_ex" by simp
  from found ex_row obtain c presets where c: "c \<in> set (PatientConsultation db_ex)"
    "?placed consultation_bed_ex c"
    and res: "patient_from_asset monitor db_ex (Some ''front'') =
                Inr \<lparr>patient_id = patient_external_id (patient c),
                     consultation_id = external_id c,
                     bed_id = bed_external_id (bed consultation_bed_ex),
                     asset_beds = presets\<rparr>"
    unfolding cb_eq by blast
  from only_a [OF c] have "c = consultation_a" .
  with res have "patient_from_asset monitor db_ex (Some ''front'') =
         Inr \<lparr>patient_id = ''p-a'', consultation_id = ''c-a'', bed_id = ''b-6'',
              asset_beds = presets\<rparr>"
    by (simp add: ex_defs)
  with ex_bed ex_row show ?thesis by blast
qed

subsection \<open>Discharge\<close>

lemma insort_key_map_same:
  "(\<And>y. f (g y) = f y) \<Longrightarrow> insort_key f (g x) (map g ys) = map g (insort_key f x ys)"
  by (induction ys) simp_all

lemma sort_key_map_same:
  "(\<And>y. f (g y) = f y) \<Longrightarrow> sort_key f (map g xs) = map g (sort_key f xs)"
  by (induction xs) (simp_all add: insort_key_map_same)

lemma filter_map_same:
  "(\<And>r. r \<in> set qs \<Longrightarrow> P (g r) = P r) \<Longrightarrow> filter P (map g qs) = map g (filter P qs)"
  by (induction qs) simp_all

lemma get_object_after_save:
  assumes pks: "distinct (map consultation_pk (PatientConsultation d))"
    and obj: "get_object tvm gaf u d q x = Inr c"
  shows "get_object tvm gaf u (serializer_save c vd kw d) q x =
           Inr (c\<lparr>discharge_fields := Some vd, current_bed := kw\<rparr>)"
proof -
  let ?c' = "c\<lparr>discharge_fields := Some vd, current_bed := kw\<rparr>"
  let ?upd = "\<lambda>r. if consultation_pk r = consultation_pk c then ?c' else r"
  let ?d' = "serializer_save c vd kw d"
  from obj have c_in: "c \<in> set (PatientConsultation d)"
    using get_object_Inr get_queryset_row_wise by blast
  have r_eq: "r = c" if "r \<in> set (PatientConsultation d)" "consultation_pk r = consultation_pk c" for r
    using pks c_in that by (meson distinct_map inj_onD)
  have pk_same: "consultation_pk (?upd r) = consultation_pk r" for r by simp
  have rows': "PatientConsultation ?d' = map ?upd (PatientConsultation d)"
    by (simp add: serializer_save_def)
  have qs': "queryset ?d' = map ?upd (queryset d)"
    unfolding queryset_def rows' using sort_key_map_same [of consultation_pk ?upd, OF pk_same]
    by (simp add: rev_map)
  have in_qs: "r \<in> set (PatientConsultation d)" if "r \<in> set (queryset d)" for r
    using that by (simp add: set_queryset)
  have pat: "patient (?upd r) = patient r" and fac: "facility (?upd r) = facility r"
    and ext: "external_id (?upd r) = external_id r" if "r \<in> set (PatientConsultation d)" for r
    using r_eq [OF that] by auto
  have p1: "patient__facility__state (?upd r) = patient__facility__state r"
    and p2: "patient__facility__district (?upd r) = patient__facility__district r"
    and p3: "applied_filters A u (?upd r) = applied_filters A u r"
    if "r \<in> set (queryset d)" for r A
    using pat [OF in_qs [OF that]] fac [OF in_qs [OF that]]
    by (simp_all only: patient__facility__state_def patient__facility__district_def
          applied_filters_def patient__facility__id__in_def)
  have gq: "get_queryset tvm gaf u ?d' = map ?upd (get_queryset tvm gaf u d)"
    unfolding get_queryset_def Let_def qs'
    by (simp add: filter_map_same p1 p2 p3 del: if_split cong: if_cong)
  have in_gq: "r \<in> set (PatientConsultation d)" if "r \<in> set (get_queryset tvm gaf u d)" for r
    using that by (simp add: get_queryset_row_wise)
  have pf: "PatientConsultationFilter q (map ?upd (get_queryset tvm gaf u d)) =
            map ?upd (PatientConsultationFilter q (get_queryset tvm gaf u d))"
    unfolding PatientConsultationFilter_def
    by (rule filter_map_same) (simp only: pat fac in_gq)
  have in_pf: "r \<in> set (PatientConsultation d)"
    if "r \<in> set (PatientConsultationFilter q (get_queryset tvm gaf u d))" for r
    using that in_gq by (simp add: PatientConsultationFilter_def)
  have ef: "filter (\<lambda>c. external_id c = x)
              (map ?upd (PatientConsultationFilter q (get_queryset tvm gaf u d))) =
            map ?upd (filter (\<lambda>c. external_id c = x)
              (PatientConsultationFilter q (get_queryset tvm gaf u d)))"
    by (rule filter_map_same) (simp only: ext in_pf)
  from obj have "filter (\<lambda>c. external_id c = x)
               (PatientConsultationFilter q (get_queryset tvm gaf u d)) = [c]"
    unfolding get_object_def by (rule get_object_or_404_Inr)
  then show ?thesis
    unfolding get_object_def gq pf ef by simp
qed

lemma serializer_save_twice:
  "serializer_save (c\<lparr>discharge_fields := Some vd, current_bed := kw\<rparr>) vd kw
     (serializer_save c vd kw d) = serializer_save c vd kw d"
  by (simp add: serializer_save_def comp_def cong: if_cong)

text \<open>
  C7. For a consultation that the request resolves (it exists and is visible to the requester)
  and a payload that passes validation, the discharge action answers with status 200 and no
  data, and in the database it leaves, the row of that consultation has no current bed and
  has its discharge fields populated from the payload. In a table with distinct primary keys
  the discharged consultation is still resolved by the same request, and discharging it again
  with the same payload answers the same and leaves the same database.
\<close>

theorem discharge_patient_effect:
  assumes obj: "get_object tvm gaf u d q x = Inr c"
    and valid: "is_valid c payload"
  shows "\<exists>d'. discharge_patient is_valid tvm gaf u d q x payload =
                 Inr (\<lparr>status = 200, data = None\<rparr>, d')
          \<and> (\<exists>r\<in>set (PatientConsultation d'). consultation_pk r = consultation_pk c)
          \<and> (\<forall>r\<in>set (PatientConsultation d'). consultation_pk r = consultation_pk c \<longrightarrow>
                current_bed r = None \<and> discharge_fields r = Some payload)
          \<and> (distinct (map consultation_pk (PatientConsultation d)) \<longrightarrow>
                get_object tvm gaf u d' q x =
                  Inr (c\<lparr>discharge_fields := Some payload, current_bed := None\<rparr>)
                \<and> (is_valid (c\<lparr>discharge_fields := Some payload, current_bed := None\<rparr>) payload
                     \<longrightarrow> discharge_patient is_valid tvm gaf u d' q x payload =
                            Inr (\<lparr>status = 200, data = None\<rparr>, d')))"
proof -
  let ?c' = "c\<lparr>discharge_fields := Some payload, current_bed := None\<rparr>"
  let ?d' = "serializer_save c payload None d"
  let ?ok = "\<lparr>status = 200, data = None\<rparr> :: unit response"
  have first_call: "discharge_patient is_valid tvm gaf u d q x payload = Inr (?ok, ?d')"
    using obj valid by (simp add: discharge_patient_def HTTP_200_OK_def)
  from obj have "c \<in> set (PatientConsultation d)"
    using get_object_Inr get_queryset_row_wise by blast
  then have "?c' \<in> set (PatientConsultation ?d')"
    by (force simp add: serializer_save_def)
  then have row: "\<exists>r\<in>set (PatientConsultation ?d'). consultation_pk r = consultation_pk c"
    by (rule bexI [rotated]) simp
  have fields: "\<forall>r\<in>set (PatientConsultation ?d'). consultation_pk r = consultation_pk c \<longrightarrow>
                current_bed r = None \<and> discharge_fields r = Some payload"
    by (auto simp add: serializer_save_def)
  have again: "get_object tvm gaf u ?d' q x = Inr ?c'
               \<and> (is_valid ?c' payload \<longrightarrow>
                     discharge_patient is_valid tvm gaf u ?d' q x payload = Inr (?ok, ?d'))"
    if pks: "distinct (map consultation_pk (PatientConsultation d))"
  proof -
    have resolved: "get_object tvm gaf u ?d' q x = Inr ?c'"
      using pks obj by (rule get_object_after_save)
    then have "discharge_patient is_valid tvm gaf u ?d' q x payload = Inr (?ok, ?d')"
      if "is_valid ?c' payload"
      using that by (simp add: discharge_patient_def HTTP_200_OK_def serializer_save_twice)
    with resolved show ?thesis by blast
  qed
  from first_call row fields again show ?thesis by blast
qed

theorem discharge_patient_effect_witness:
  "get_object TYPE_VALUE_MAP_ex accessible_ex nurse db_ex
      \<lparr>patient_param = None, facility_param = None\<rparr> ''c-a'' = Inr consultation_a
   \<and> distinct (map consultation_pk (PatientConsultation db_ex))
   \<and> (\<exists>d'. discharge_patient (\<lambda>c p. p \<noteq> []) TYPE_VALUE_MAP_ex accessible_ex nurse db_ex
                \<lparr>patient_param = None, facility_param = None\<rparr> ''c-a''
                [(''discharge_notes'', ''recovered'')] =
              Inr (\<lparr>status = 200, data = None\<rparr>, d')
          \<and> discharge_patient (\<lambda>c p. p \<noteq> []) TYPE_VALUE_MAP_ex accessible_ex nurse d'
                \<lparr>patient_param = None, facility_param = None\<rparr> ''c-a''
                [(''discharge_notes'', ''recovered'')] =
              Inr (\<lparr>status = 200, data = None\<rparr>, d'))"
proof -
  let ?q = "\<lparr>patient_param = None, facility_param = None\<rparr>"
  let ?p = "[(''discharge_notes'', ''recovered'')] :: discharge_data"
  have obj: "get_object TYPE_VALUE_MAP_ex accessible_ex nurse db_ex ?q ''c-a'' = Inr consultation_a"
    by (simp add: get_object_def PatientConsultationFilter_def get_queryset_def queryset_def
          applied_filters_def patient__facility__id__in_def ex_defs)
  have pks: "distinct (map consultation_pk (PatientConsultation db_ex))"
    by (simp add: ex_defs)
  have v: "(\<lambda>c p. p \<noteq> []) consultation_a ?p" by simp
  have v': "(\<lambda>c p. p \<noteq> [])
              (consultation_a\<lparr>discharge_fields := Some ?p, current_bed := None\<rparr>) ?p" by simp
  from discharge_patient_effect [of TYPE_VALUE_MAP_ex accessible_ex nurse db_ex ?q "''c-a''"
         consultation_a "\<lambda>c p. p \<noteq> []" ?p, OF obj v] pks v'
  have "\<exists>d'. discharge_patient (\<lambda>c p. p \<noteq> []) TYPE_VALUE_MAP_ex accessible_ex nurse db_ex
                ?q ''c-a'' ?p = Inr (\<lparr>status = 200, data = None\<rparr>, d')
          \<and> discharge_patient (\<lambda>c p. p \<noteq> []) TYPE_VALUE_MAP_ex accessible_ex nurse d'
                ?q ''c-a'' ?p = Inr (\<lparr>status = 200, data = None\<rparr>, d')"
    by blast
  with obj pks show ?thesis by blast
qed

end
